theory Spec2Isabelle
  imports Main
begin

section \<open>Data model of ElasticsearchDAO\<close>

text \<open>
  Modelled from the spec: the interface \<open>ITerm\<close> is declared in \<^verbatim>\<open>./Term\<close>, which is
  not among the sources. The spec's Record has a URI, a preferred label, a definition and
  a context, and these are the four fields the DAO reads: \<^verbatim>\<open>prefLabel\<close>, \<^verbatim>\<open>URI\<close>,
  \<^verbatim>\<open>definition\<close> and \<^verbatim>\<open>context\<close>. The last two names are keywords of the theory
  language and carry the prefix \<open>term_\<close>.
\<close>

record ITerm =
  prefLabel :: string
  URI :: string
  term_definition :: string
  term_context :: string

text \<open>
  A search hit, as far as the DAO reads it: \<^verbatim>\<open>obj._id\<close> and \<^verbatim>\<open>obj._source.URI\<close>.
\<close>

record hit =
  hit_id :: string
  source_URI :: string

text \<open>A rejected promise of the engine client.\<close>

datatype error = Engine_error string

text \<open>
  The client handle, as the answers the engine gives to the two awaited requests:
  \<^verbatim>\<open>client.search({index, type, body: {query: {match: {URI: uri}}}})\<close>, whose answer
  is read at \<^verbatim>\<open>result.hits.hits\<close>, and \<^verbatim>\<open>client.indices.exists({index})\<close>.
\<close>

record client =
  search :: "string \<Rightarrow> string \<Rightarrow> string \<Rightarrow> error + hit list"
  indices_exists :: "string \<Rightarrow> error + bool"

text \<open>An object literal is the list of its fields in the order they are written.\<close>

type_synonym js_object = "(string \<times> string) list"

text \<open>
  The entries pushed onto \<^verbatim>\<open>bulk\<close>:
  \<^verbatim>\<open>{index: {_index, _type}}\<close>, \<^verbatim>\<open>{update: {_index, _type, _id}}\<close>, the term itself,
  and \<^verbatim>\<open>{doc: {...}}\<close>.
\<close>

datatype bulk_entry =
    Index_directive string string
  | Update_directive string string string
  | Term_payload ITerm
  | Doc_payload js_object

text \<open>
  What an operation does to the outside, in program order: the requests it issues to the
  engine, the lines it logs and the exit of the process.
\<close>

datatype event =
    Ping nat
  | Search string string string
  | Exists string
  | Create string
  | Bulk "bulk_entry list"
  | Log string
  | Log_error string
  | Exit nat

text \<open>
  An \<^verbatim>\<open>async\<close> function yields the events it caused and either the error of the first
  rejected \<^verbatim>\<open>await\<close>, which ends it, or its value.
\<close>

type_synonym 'a io = "event list \<times> (error + 'a)"

definition return_io :: "'a \<Rightarrow> 'a io" where
  "return_io x = ([], Inr x)"

definition emit :: "event list \<Rightarrow> unit io" where
  "emit evs = (evs, Inr ())"

definition bind_io :: "'a io \<Rightarrow> ('a \<Rightarrow> 'b io) \<Rightarrow> 'b io" where
  "bind_io m f =
     (case m of
        (evs, Inl e) \<Rightarrow> (evs, Inl e)
      | (evs, Inr x) \<Rightarrow> (case f x of (evs', r) \<Rightarrow> (evs @ evs', r)))"

section \<open>Connection and index management\<close>

text \<open>
  \<^verbatim>\<open>connectToElasticsearch\<close> builds the handle from the configuration, issues the ping
  with \<^verbatim>\<open>requestTimeout: 30000\<close> and returns the handle at once. The callback of the
  ping runs later, from the event loop; it is the function \<open>pingCallback\<close>, with the two
  nested tests of \<^verbatim>\<open>error\<close> as the source has them. \<^verbatim>\<open>console.error\<close> and
  \<^verbatim>\<open>console.log\<close> receive a colour format and the message; the event keeps the message.
\<close>

definition connectToElasticsearch :: "client \<Rightarrow> event list \<times> client" where
  "connectToElasticsearch client = ([Ping 30000], client)"

definition pingCallback :: "error option \<Rightarrow> event list" where
  "pingCallback error =
     (if error \<noteq> None then
        (if error \<noteq> None then
           [Log_error ''Elasticsearch cluster is down'', Exit 1]
         else
           [Log ''Elasticsearch cluster/client is running''])
      else [])"

definition checkIfIndexExists :: "client \<Rightarrow> string \<Rightarrow> bool io" where
  "checkIfIndexExists client index = ([Exists index], indices_exists client index)"

text \<open>
  \<^verbatim>\<open>createIndex\<close> issues the creation request and returns; the outcome reaches only its
  callback, which prints it with \<^verbatim>\<open>console.log\<close>.
\<close>

definition createIndex :: "client \<Rightarrow> string \<Rightarrow> unit io" where
  "createIndex client name = emit [Create name]"

definition setupElasticsearch :: "client \<Rightarrow> unit io" where
  "setupElasticsearch c =
     (case connectToElasticsearch c of (evs, client) \<Rightarrow>
      bind_io (evs, Inr ()) (\<lambda>_.
      bind_io (checkIfIndexExists client ''oslo-terminology'') (\<lambda>terminologyIndexExists.
      bind_io (checkIfIndexExists client ''oslo-application-profiles'') (\<lambda>applicationProfileIndexExists.
      bind_io (if \<not> terminologyIndexExists then
                 bind_io (emit [Log ''[ElasticsearchDAO]: oslo-terminology index does not exist on setup. Creating it. ''])
                   (\<lambda>_. createIndex client ''oslo-terminology'')
               else return_io ()) (\<lambda>_.
      if \<not> applicationProfileIndexExists then
        bind_io (emit [Log ''[ElasticsearchDAO]: oslo-application-profiles index does not exist on setup. Creating it. ''])
          (\<lambda>_. createIndex client ''oslo-application-profiles'')
      else return_io ())))))"

section \<open>getId\<close>

definition getId :: "string \<Rightarrow> string \<Rightarrow> string \<Rightarrow> client \<Rightarrow> string option io" where
  "getId uri index type client =
     bind_io ([Search index type uri], search client index type uri) (\<lambda>result.
       (case find (\<lambda>obj. source_URI obj = uri) result of
          None \<Rightarrow> return_io None
        | Some object \<Rightarrow> return_io (Some (hit_id object))))"

section \<open>The full synchronisation: updateVocabulary and updateApplicationProfile\<close>

text \<open>
  The loop \<^verbatim>\<open>for (let term of data)\<close> with the array \<^verbatim>\<open>bulk\<close> it pushes onto.
  \<^verbatim>\<open>!id\<close> holds of \<^verbatim>\<open>null\<close> and of the empty string.
\<close>

fun updateVocabulary_loop :: "client \<Rightarrow> ITerm list \<Rightarrow> bulk_entry list \<Rightarrow> bulk_entry list io" where
  "updateVocabulary_loop client [] bulk = return_io bulk"
| "updateVocabulary_loop client (t # data) bulk =
     bind_io (getId (URI t) ''oslo-terminology'' ''vocabularies'' client) (\<lambda>id.
       if id = None \<or> id = Some [] then
         updateVocabulary_loop client data
           (bulk @ [Index_directive ''oslo-terminology'' ''vocabularies'', Term_payload t])
       else
         updateVocabulary_loop client data
           (bulk @ [Update_directive ''oslo-terminology'' ''vocabularies'' (the id),
                    Doc_payload [(''prefLabel'', prefLabel t), (''URI'', URI t),
                                 (''definition'', term_definition t),
                                 (''context'', term_context t)]]))"

definition updateVocabulary :: "client \<Rightarrow> ITerm list \<Rightarrow> unit io" where
  "updateVocabulary c data =
     (case connectToElasticsearch c of (evs, client) \<Rightarrow>
      bind_io (evs, Inr ()) (\<lambda>_.
      bind_io (updateVocabulary_loop client data []) (\<lambda>bulk.
      emit [Bulk bulk])))"

fun updateApplicationProfile_loop :: "client \<Rightarrow> ITerm list \<Rightarrow> bulk_entry list \<Rightarrow> bulk_entry list io" where
  "updateApplicationProfile_loop client [] bulk = return_io bulk"
| "updateApplicationProfile_loop client (t # data) bulk =
     bind_io (getId (URI t) ''oslo-application-profiles'' ''classes'' client) (\<lambda>id.
       if id = None \<or> id = Some [] then
         updateApplicationProfile_loop client data
           (bulk @ [Index_directive ''oslo-application-profiles'' ''classes'', Term_payload t])
       else
         updateApplicationProfile_loop client data
           (bulk @ [Update_directive ''oslo-application-profiles'' ''classes'' (the id),
                    Doc_payload [(''prefLabel'', prefLabel t), (''URI'', URI t),
                                 (''definition'', term_definition t),
                                 (''context'', term_context t)]]))"

definition updateApplicationProfile :: "client \<Rightarrow> ITerm list \<Rightarrow> unit io" where
  "updateApplicationProfile c data =
     (case connectToElasticsearch c of (evs, client) \<Rightarrow>
      bind_io (evs, Inr ()) (\<lambda>_.
      bind_io (updateApplicationProfile_loop client data []) (\<lambda>bulk.
      emit [Bulk bulk])))"

section \<open>The plain push: pushData and pushDataInBulk\<close>

fun pushDataInBulk_loop ::
  "client \<Rightarrow> string \<Rightarrow> string \<Rightarrow> ITerm list \<Rightarrow> bulk_entry list \<Rightarrow> bulk_entry list io" where
  "pushDataInBulk_loop client type index [] bulk = return_io bulk"
| "pushDataInBulk_loop client type index (t # data) bulk =
     bind_io (getId (URI t) index type client) (\<lambda>id.
       if id = None \<or> id = Some [] then
         pushDataInBulk_loop client type index data
           (bulk @ [Index_directive index type, Term_payload t])
       else
         pushDataInBulk_loop client type index data bulk)"

definition pushDataInBulk :: "client \<Rightarrow> string \<Rightarrow> string \<Rightarrow> ITerm list \<Rightarrow> unit io" where
  "pushDataInBulk client type index data =
     bind_io (pushDataInBulk_loop client type index data []) (\<lambda>bulk.
       if length bulk \<noteq> 0 then emit [Bulk bulk] else return_io ())"

text \<open>
  The callbacks handed to \<^verbatim>\<open>client.bulk\<close> only log the outcome of the request.

  \<^verbatim>\<open>pushData\<close> awaits neither \<^verbatim>\<open>createIndex\<close> nor \<^verbatim>\<open>pushDataInBulk\<close>: a rejection inside
  \<^verbatim>\<open>pushDataInBulk\<close> ends that call and does not reach the caller of \<^verbatim>\<open>pushData\<close>.
\<close>

definition pushData :: "client \<Rightarrow> ITerm list \<Rightarrow> string \<Rightarrow> string \<Rightarrow> unit io" where
  "pushData c data index type =
     (case connectToElasticsearch c of (evs, client) \<Rightarrow>
      bind_io (evs, Inr ()) (\<lambda>_.
      bind_io (checkIfIndexExists client index) (\<lambda>indexExists.
      bind_io (if \<not> indexExists then
                 bind_io (emit [Log (''[ElasticsearchDAO]: '' @ index @ '' does not exist yet. Creating it.'')])
                   (\<lambda>_. createIndex client index)
               else return_io ()) (\<lambda>_.
      (fst (pushDataInBulk client type index data), Inr ())))))"

section \<open>Observations on a run\<close>

text \<open>The bodies of the \<^verbatim>\<open>client.bulk\<close> calls of a run, and the names of its
  \<^verbatim>\<open>client.indices.create\<close> calls, in the order they were issued.\<close>

fun bulk_bodies :: "event list \<Rightarrow> bulk_entry list list" where
  "bulk_bodies [] = []"
| "bulk_bodies (Bulk b # evs) = b # bulk_bodies evs"
| "bulk_bodies (_ # evs) = bulk_bodies evs"

definition submitted :: "'a io \<Rightarrow> bulk_entry list list" where
  "submitted m = bulk_bodies (fst m)"

fun created :: "event list \<Rightarrow> string list" where
  "created [] = []"
| "created (Create name # evs) = name # created evs"
| "created (_ # evs) = created evs"

definition setup_twice :: "client \<Rightarrow> client \<Rightarrow> unit io" where
  "setup_twice c c' = bind_io (setupElasticsearch c) (\<lambda>_. setupElasticsearch c')"

fun is_update :: "bulk_entry \<Rightarrow> bool" where
  "is_update (Update_directive _ _ _) = True"
| "is_update _ = False"

fun is_insert :: "bulk_entry \<Rightarrow> bool" where
  "is_insert (Index_directive _ _) = True"
| "is_insert _ = False"

definition count_updates :: "bulk_entry list \<Rightarrow> nat" where
  "count_updates bulk = length (filter is_update bulk)"

definition count_inserts :: "bulk_entry list \<Rightarrow> nat" where
  "count_inserts bulk = length (filter is_insert bulk)"

fun doc_field_names :: "bulk_entry \<Rightarrow> string list" where
  "doc_field_names (Doc_payload doc) = map fst doc"
| "doc_field_names _ = []"

text \<open>Every lookup of the batch is answered: no search of the loop is rejected.\<close>

definition answered :: "client \<Rightarrow> string \<Rightarrow> string \<Rightarrow> ITerm list \<Rightarrow> bool" where
  "answered c index type data =
     list_all (\<lambda>t. case search c index type (URI t) of Inl _ \<Rightarrow> False | Inr _ \<Rightarrow> True) data"

text \<open>
  What \<open>getId\<close> resolves a record to; \<open>has_identifier\<close> when that is an identifier at
  all, \<open>has_nonempty_identifier\<close> when it is one that \<^verbatim>\<open>!id\<close> lets through.
\<close>

definition resolved :: "client \<Rightarrow> string \<Rightarrow> string \<Rightarrow> ITerm \<Rightarrow> string option" where
  "resolved c index type t =
     (case snd (getId (URI t) index type c) of Inl _ \<Rightarrow> None | Inr r \<Rightarrow> r)"

definition has_identifier :: "client \<Rightarrow> string \<Rightarrow> string \<Rightarrow> ITerm \<Rightarrow> bool" where
  "has_identifier c index type t = (resolved c index type t \<noteq> None)"

definition has_nonempty_identifier :: "client \<Rightarrow> string \<Rightarrow> string \<Rightarrow> ITerm \<Rightarrow> bool" where
  "has_nonempty_identifier c index type t =
     (case resolved c index type t of None \<Rightarrow> False | Some i \<Rightarrow> i \<noteq> [])"

text \<open>
  The identifier of a document is assigned by the engine: the insert directives of the
  DAO carry no \<^verbatim>\<open>_id\<close>. An assigned identifier is not the empty string, so on such an
  engine every hit that the lookups of a batch return has a non-empty \<^verbatim>\<open>_id\<close>.
\<close>

definition identifiers_assigned :: "client \<Rightarrow> string \<Rightarrow> string \<Rightarrow> ITerm list \<Rightarrow> bool" where
  "identifiers_assigned c index type data =
     list_all (\<lambda>t. case search c index type (URI t) of
                     Inl _ \<Rightarrow> True
                   | Inr result \<Rightarrow> list_all (\<lambda>obj. hit_id obj \<noteq> []) result) data"

text \<open>The two entries one record contributes, as a function of the record alone.\<close>

definition insert_pair :: "string \<Rightarrow> string \<Rightarrow> ITerm \<Rightarrow> bulk_entry list" where
  "insert_pair index type t = [Index_directive index type, Term_payload t]"

definition update_pair :: "string \<Rightarrow> string \<Rightarrow> string \<Rightarrow> ITerm \<Rightarrow> bulk_entry list" where
  "update_pair index type i t =
     [Update_directive index type i,
      Doc_payload [(''prefLabel'', prefLabel t), (''URI'', URI t),
                   (''definition'', term_definition t), (''context'', term_context t)]]"

definition directive_pair :: "client \<Rightarrow> string \<Rightarrow> string \<Rightarrow> ITerm \<Rightarrow> bulk_entry list" where
  "directive_pair c index type t =
     (case resolved c index type t of
        None \<Rightarrow> insert_pair index type t
      | Some i \<Rightarrow> if i = [] then insert_pair index type t else update_pair index type i t)"

definition push_pair :: "client \<Rightarrow> string \<Rightarrow> string \<Rightarrow> ITerm \<Rightarrow> bulk_entry list" where
  "push_pair c index type t =
     (if has_nonempty_identifier c index type t then [] else insert_pair index type t)"

section \<open>updateVocabulary with its two constants as parameters\<close>

text \<open>
  The text of \<^verbatim>\<open>updateVocabulary\<close> with \<^verbatim>\<open>'oslo-terminology'\<close> replaced by \<open>index\<close> and
  \<^verbatim>\<open>'vocabularies'\<close> by \<open>type\<close>, and the replacement of the two constants inside a
  finished list of entries.
\<close>

fun updateVocabulary_with_loop ::
  "string \<Rightarrow> string \<Rightarrow> client \<Rightarrow> ITerm list \<Rightarrow> bulk_entry list \<Rightarrow> bulk_entry list io" where
  "updateVocabulary_with_loop index type client [] bulk = return_io bulk"
| "updateVocabulary_with_loop index type client (t # data) bulk =
     bind_io (getId (URI t) index type client) (\<lambda>id.
       if id = None \<or> id = Some [] then
         updateVocabulary_with_loop index type client data
           (bulk @ [Index_directive index type, Term_payload t])
       else
         updateVocabulary_with_loop index type client data
           (bulk @ [Update_directive index type (the id),
                    Doc_payload [(''prefLabel'', prefLabel t), (''URI'', URI t),
                                 (''definition'', term_definition t),
                                 (''context'', term_context t)]]))"

definition updateVocabulary_with :: "string \<Rightarrow> string \<Rightarrow> client \<Rightarrow> ITerm list \<Rightarrow> unit io" where
  "updateVocabulary_with index type c data =
     (case connectToElasticsearch c of (evs, client) \<Rightarrow>
      bind_io (evs, Inr ()) (\<lambda>_.
      bind_io (updateVocabulary_with_loop index type client data []) (\<lambda>bulk.
      emit [Bulk bulk])))"

fun retarget :: "string \<Rightarrow> string \<Rightarrow> bulk_entry \<Rightarrow> bulk_entry" where
  "retarget index type (Index_directive _ _) = Index_directive index type"
| "retarget index type (Update_directive _ _ i) = Update_directive index type i"
| "retarget index type e = e"

section \<open>Concrete engines and records\<close>

text \<open>
  An engine whose match query on \<^verbatim>\<open>"a"\<close> answers with hits of URI \<^verbatim>\<open>"a"\<close>, \<^verbatim>\<open>"ab"\<close>,
  \<^verbatim>\<open>"a"\<close>, on \<^verbatim>\<open>"b"\<close> with the one hit of URI \<^verbatim>\<open>"ab"\<close>, and with nothing otherwise;
  of the two collections only \<^verbatim>\<open>oslo-terminology\<close> exists.
\<close>

definition example_hits :: "hit list" where
  "example_hits =
     [\<lparr>hit_id = ''id1'', source_URI = ''a''\<rparr>,
      \<lparr>hit_id = ''id2'', source_URI = ''ab''\<rparr>,
      \<lparr>hit_id = ''id3'', source_URI = ''a''\<rparr>]"

definition example_search :: "string \<Rightarrow> string \<Rightarrow> string \<Rightarrow> error + hit list" where
  "example_search index type uri =
     (if uri = ''a'' then Inr example_hits
      else if uri = ''b'' then Inr [\<lparr>hit_id = ''id2'', source_URI = ''ab''\<rparr>]
      else Inr [])"

definition example_exists :: "string \<Rightarrow> error + bool" where
  "example_exists index = Inr (index = ''oslo-terminology'')"

definition example_client :: client where
  "example_client = \<lparr>search = example_search, indices_exists = example_exists\<rparr>"

text \<open>An engine in which every collection exists.\<close>

definition all_exist :: "string \<Rightarrow> error + bool" where
  "all_exist index = Inr True"

definition existing_client :: client where
  "existing_client = \<lparr>search = example_search, indices_exists = all_exist\<rparr>"

definition record_a :: ITerm where
  "record_a = \<lparr>prefLabel = ''A'', URI = ''a'', term_definition = ''first'', term_context = ''ctx''\<rparr>"

definition record_b :: ITerm where
  "record_b = \<lparr>prefLabel = ''B'', URI = ''b'', term_definition = ''second'', term_context = ''ctx''\<rparr>"

section \<open>The loops as functions of the batch\<close>

text \<open>
  The loops issue one search per record and nothing else. When every search is answered
  they return the concatenation of the pairs of the records; at the first rejected search
  they end with its error, and then nothing is submitted.
\<close>

lemma bind_io_Inl [simp]: "bind_io (evs, Inl e) f = (evs, Inl e)"
  by (simp add: bind_io_def)

lemma bind_io_Inr [simp]: "bind_io (evs, Inr x) f = (evs @ fst (f x), snd (f x))"
  by (simp add: bind_io_def split: prod.splits)

lemma fst_getId [simp]: "fst (getId uri index type c) = [Search index type uri]"
  by (simp add: getId_def bind_io_def return_io_def split: sum.splits option.splits prod.splits)

lemma snd_getId:
  "snd (getId uri index type c) =
     (case search c index type uri of
        Inl e \<Rightarrow> Inl e
      | Inr result \<Rightarrow> Inr (map_option hit_id (find (\<lambda>obj. source_URI obj = uri) result)))"
  by (simp add: getId_def bind_io_def return_io_def split: sum.splits option.splits prod.splits)

lemma getId_eq: "getId uri index type c = ([Search index type uri], snd (getId uri index type c))"
  by (metis fst_getId prod.collapse)

lemma updateVocabulary_loop_with:
  "updateVocabulary_loop c data bulk =
     updateVocabulary_with_loop ''oslo-terminology'' ''vocabularies'' c data bulk"
  by (induction data arbitrary: bulk) (simp_all cong: if_cong)

lemma updateApplicationProfile_loop_with:
  "updateApplicationProfile_loop c data bulk =
     updateVocabulary_with_loop ''oslo-application-profiles'' ''classes'' c data bulk"
  by (induction data arbitrary: bulk) (simp_all cong: if_cong)

lemma bulk_bodies_append [simp]: "bulk_bodies (xs @ ys) = bulk_bodies xs @ bulk_bodies ys"
  by (induction xs rule: bulk_bodies.induct) simp_all

lemma with_loop_step:
  "updateVocabulary_with_loop index type c (t # data) bulk =
     (case search c index type (URI t) of
        Inl e \<Rightarrow> ([Search index type (URI t)], Inl e)
      | Inr result \<Rightarrow>
          (Search index type (URI t) #
             fst (updateVocabulary_with_loop index type c data (bulk @ directive_pair c index type t)),
           snd (updateVocabulary_with_loop index type c data (bulk @ directive_pair c index type t))))"
  apply (subst updateVocabulary_with_loop.simps)
  apply (subst getId_eq)
  apply (simp add: snd_getId directive_pair_def resolved_def insert_pair_def update_pair_def
      split: sum.splits option.splits)
  done

lemma with_loop_no_bulk:
  "bulk_bodies (fst (updateVocabulary_with_loop index type c data bulk)) = []"
  by (induction data arbitrary: bulk)
     (simp_all add: with_loop_step return_io_def del: updateVocabulary_with_loop.simps(2)
        split: sum.splits)

lemma with_loop_answered:
  "answered c index type data \<Longrightarrow>
   snd (updateVocabulary_with_loop index type c data bulk) =
     Inr (bulk @ concat (map (directive_pair c index type) data))"
  by (induction data arbitrary: bulk)
     (simp_all add: with_loop_step return_io_def answered_def
        del: updateVocabulary_with_loop.simps(2) split: sum.splits)

lemma with_loop_unanswered:
  "\<not> answered c index type data \<Longrightarrow>
   \<exists>e. snd (updateVocabulary_with_loop index type c data bulk) = Inl e"
  by (induction data arbitrary: bulk)
     (auto simp add: with_loop_step return_io_def answered_def
        simp del: updateVocabulary_with_loop.simps(2) split: sum.splits)

lemma updateVocabulary_with_submitted:
  "submitted (updateVocabulary_with index type c data) =
     (if answered c index type data then [concat (map (directive_pair c index type) data)] else [])"
proof (cases "answered c index type data")
  case True
  then show ?thesis
    using with_loop_answered [OF True, of "[]"] with_loop_no_bulk [of index type c data "[]"]
    by (cases "updateVocabulary_with_loop index type c data []")
       (simp add: submitted_def updateVocabulary_with_def connectToElasticsearch_def emit_def)
next
  case False
  then show ?thesis
    using with_loop_unanswered [OF False, of "[]"] with_loop_no_bulk [of index type c data "[]"]
    by (cases "updateVocabulary_with_loop index type c data []")
       (auto simp add: submitted_def updateVocabulary_with_def connectToElasticsearch_def emit_def)
qed



lemma length_directive_pair [simp]: "length (directive_pair c index type t) = 2"
  by (simp add: directive_pair_def insert_pair_def update_pair_def split: option.splits)

lemma length_concat_pairs:
  "(\<And>t. length (f t) = 2) \<Longrightarrow> length (concat (map f data)) = 2 * length data"
  by (induction data) simp_all

lemma nth_concat_pairs:
  "(\<And>t. length (f t) = 2) \<Longrightarrow> k < length data \<Longrightarrow>
   concat (map f data) ! (2 * k) = f (data ! k) ! 0 \<and>
   concat (map f data) ! (2 * k + 1) = f (data ! k) ! 1"
proof (induction data arbitrary: k)
  case Nil
  then show ?case by simp
next
  case (Cons t data)
  show ?case
  proof (cases k)
    case 0
    with Cons.prems(1) [of t] show ?thesis by (simp add: nth_append)
  next
    case (Suc j)
    with Cons.prems have j: "j < length data" by simp
    from Cons.IH [OF Cons.prems(1) j] Cons.prems(1) [of t] Suc
    show ?thesis by (simp add: nth_append)
  qed
qed

lemma count_updates_pairs:
  "count_updates (concat (map (directive_pair c index type) data)) =
     length (filter (has_nonempty_identifier c index type) data)"
  by (induction data)
     (simp_all add: count_updates_def directive_pair_def insert_pair_def update_pair_def
        has_nonempty_identifier_def split: option.splits)

lemma count_inserts_pairs:
  "count_inserts (concat (map (directive_pair c index type) data)) =
     length data - length (filter (has_nonempty_identifier c index type) data)"
proof (induction data)
  case Nil
  then show ?case by (simp add: count_inserts_def)
next
  case (Cons t data)
  have "length (filter (has_nonempty_identifier c index type) data) \<le> length data"
    by simp
  with Cons show ?case
    by (simp add: count_inserts_def directive_pair_def insert_pair_def update_pair_def
        has_nonempty_identifier_def Suc_diff_le split: option.splits)
qed

lemma push_loop_step:
  "pushDataInBulk_loop c type index (t # data) bulk =
     (case search c index type (URI t) of
        Inl e \<Rightarrow> ([Search index type (URI t)], Inl e)
      | Inr result \<Rightarrow>
          (Search index type (URI t) #
             fst (pushDataInBulk_loop c type index data (bulk @ push_pair c index type t)),
           snd (pushDataInBulk_loop c type index data (bulk @ push_pair c index type t))))"
  apply (subst pushDataInBulk_loop.simps)
  apply (subst getId_eq)
  apply (simp add: snd_getId push_pair_def has_nonempty_identifier_def resolved_def insert_pair_def
      split: sum.splits option.splits)
  done

lemma push_loop_no_bulk:
  "bulk_bodies (fst (pushDataInBulk_loop c type index data bulk)) = []"
  by (induction data arbitrary: bulk)
     (simp_all add: push_loop_step return_io_def del: pushDataInBulk_loop.simps(2)
        split: sum.splits)

lemma push_loop_answered:
  "answered c index type data \<Longrightarrow>
   snd (pushDataInBulk_loop c type index data bulk) =
     Inr (bulk @ concat (map (push_pair c index type) data))"
  by (induction data arbitrary: bulk)
     (simp_all add: push_loop_step return_io_def answered_def
        del: pushDataInBulk_loop.simps(2) split: sum.splits)

lemma push_loop_unanswered:
  "\<not> answered c index type data \<Longrightarrow>
   \<exists>e. snd (pushDataInBulk_loop c type index data bulk) = Inl e"
  by (induction data arbitrary: bulk)
     (auto simp add: push_loop_step return_io_def answered_def
        simp del: pushDataInBulk_loop.simps(2) split: sum.splits)

lemma pushDataInBulk_submitted:
  "submitted (pushDataInBulk c type index data) =
     (if answered c index type data \<and> concat (map (push_pair c index type) data) \<noteq> []
      then [concat (map (push_pair c index type) data)] else [])"
proof (cases "answered c index type data")
  case True
  then show ?thesis
    using push_loop_answered [OF True, of "[]"] push_loop_no_bulk [of c type index data "[]"]
    by (cases "pushDataInBulk_loop c type index data []")
       (simp add: submitted_def pushDataInBulk_def emit_def return_io_def)
next
  case False
  then show ?thesis
    using push_loop_unanswered [OF False, of "[]"] push_loop_no_bulk [of c type index data "[]"]
    by (cases "pushDataInBulk_loop c type index data []")
       (auto simp add: submitted_def pushDataInBulk_def emit_def)
qed

lemma push_pairs_filter:
  "concat (map (push_pair c index type) data) =
     concat (map (insert_pair index type)
       (filter (\<lambda>t. \<not> has_nonempty_identifier c index type t) data))"
  by (induction data) (simp_all add: push_pair_def)

lemma count_updates_inserts: "count_updates (concat (map (insert_pair index type) ts)) = 0"
  by (induction ts) (simp_all add: count_updates_def insert_pair_def)

lemma length_inserts: "length (concat (map (insert_pair index type) ts)) = 2 * length ts"
  by (induction ts) (simp_all add: insert_pair_def)



lemma find_SomeD: "find P xs = Some x \<Longrightarrow> x \<in> set xs \<and> P x"
  by (induction xs) (auto split: if_splits)

lemma resolved_Some:
  "resolved c index type t = Some i \<Longrightarrow>
   \<exists>result obj. search c index type (URI t) = Inr result \<and> obj \<in> set result \<and>
     hit_id obj = i \<and> source_URI obj = URI t"
  by (auto simp add: resolved_def snd_getId split: sum.splits dest: find_SomeD)

lemma directive_pair_update:
  "is_update (directive_pair c index type t ! 0) \<Longrightarrow>
   \<exists>i. resolved c index type t = Some i \<and> i \<noteq> [] \<and>
     directive_pair c index type t = update_pair index type i t"
  by (auto simp add: directive_pair_def insert_pair_def split: option.splits if_splits)

lemma directive_pair_payload: "\<not> is_update (directive_pair c index type t ! 1)"
  by (simp add: directive_pair_def insert_pair_def update_pair_def split: option.splits)

lemma directive_pair_cases:
  "directive_pair c index type t = insert_pair index type t \<or>
   (\<exists>i. directive_pair c index type t = update_pair index type i t)"
  by (auto simp add: directive_pair_def split: option.splits)

lemma update_in_pairs:
  assumes n: "n < length (concat (map (directive_pair c index type) data))"
      and u: "is_update (concat (map (directive_pair c index type) data) ! n)"
  shows "\<exists>k i result obj. n = 2 * k \<and> k < length data \<and>
           concat (map (directive_pair c index type) data) ! n = Update_directive index type i \<and>
           concat (map (directive_pair c index type) data) ! (n + 1) =
             Doc_payload [(''prefLabel'', prefLabel (data ! k)), (''URI'', URI (data ! k)),
                          (''definition'', term_definition (data ! k)),
                          (''context'', term_context (data ! k))] \<and>
           search c index type (URI (data ! k)) = Inr result \<and> obj \<in> set result \<and>
           hit_id obj = i \<and> source_URI obj = URI (data ! k)"
proof -
  let ?b = "concat (map (directive_pair c index type) data)"
  have len: "length ?b = 2 * length data"
    by (rule length_concat_pairs) simp
  define k where "k = n div 2"
  from n len have k: "k < length data" by (simp add: k_def)
  have nth: "?b ! (2 * k) = directive_pair c index type (data ! k) ! 0"
            "?b ! (2 * k + 1) = directive_pair c index type (data ! k) ! 1"
    using nth_concat_pairs [of "directive_pair c index type" k data] k by simp_all
  have even: "n = 2 * k"
  proof (rule ccontr)
    assume "n \<noteq> 2 * k"
    then have "n = 2 * k + 1" by (simp add: k_def)
    with u nth(2) directive_pair_payload [of c index type "data ! k"] show False by simp
  qed
  with u nth(1) have "is_update (directive_pair c index type (data ! k) ! 0)" by simp
  from directive_pair_update [OF this] obtain i where
    i: "resolved c index type (data ! k) = Some i" "i \<noteq> []"
       "directive_pair c index type (data ! k) = update_pair index type i (data ! k)"
    by blast
  from resolved_Some [OF i(1)] obtain result obj where
    r: "search c index type (URI (data ! k)) = Inr result" "obj \<in> set result"
       "hit_id obj = i" "source_URI obj = URI (data ! k)"
    by blast
  from nth i(3) even have
    "?b ! n = Update_directive index type i"
    "?b ! (n + 1) = Doc_payload [(''prefLabel'', prefLabel (data ! k)), (''URI'', URI (data ! k)),
                          (''definition'', term_definition (data ! k)),
                          (''context'', term_context (data ! k))]"
    by (simp_all add: update_pair_def)
  with even k r show ?thesis by blast
qed

lemma created_append [simp]: "created (xs @ ys) = created xs @ created ys"
  by (induction xs rule: created.induct) simp_all

lemma push_loop_no_create:
  "created (fst (pushDataInBulk_loop c type index data bulk)) = []"
  by (induction data arbitrary: bulk)
     (simp_all add: push_loop_step return_io_def del: pushDataInBulk_loop.simps(2)
        split: sum.splits)

lemma pushDataInBulk_no_create: "created (fst (pushDataInBulk c type index data)) = []"
  using push_loop_no_create [of c type index data "[]"]
  by (cases "pushDataInBulk_loop c type index data []")
     (auto simp add: pushDataInBulk_def bind_io_def emit_def return_io_def split: sum.splits prod.splits)

lemma setupElasticsearch_created:
  "created (fst (setupElasticsearch c)) =
     (case indices_exists c ''oslo-terminology'' of
        Inl e \<Rightarrow> []
      | Inr t_exists \<Rightarrow>
          (case indices_exists c ''oslo-application-profiles'' of
             Inl e \<Rightarrow> []
           | Inr a_exists \<Rightarrow>
               (if t_exists then [] else [''oslo-terminology'']) @
               (if a_exists then [] else [''oslo-application-profiles''])))"
  by (simp add: setupElasticsearch_def connectToElasticsearch_def checkIfIndexExists_def
      createIndex_def emit_def return_io_def split: sum.splits)

lemma setupElasticsearch_result:
  "snd (setupElasticsearch c) =
     (case indices_exists c ''oslo-terminology'' of
        Inl e \<Rightarrow> Inl e
      | Inr t_exists \<Rightarrow>
          (case indices_exists c ''oslo-application-profiles'' of
             Inl e \<Rightarrow> Inl e
           | Inr a_exists \<Rightarrow> Inr ()))"
  by (simp add: setupElasticsearch_def connectToElasticsearch_def checkIfIndexExists_def
      createIndex_def emit_def return_io_def split: sum.splits)

lemma pushData_created:
  "created (fst (pushData c data index type)) =
     (if indices_exists c index = Inr False then [index] else [])"
  by (cases "indices_exists c index")
     (simp_all add: pushData_def connectToElasticsearch_def checkIfIndexExists_def
        createIndex_def emit_def return_io_def pushDataInBulk_no_create)

lemma pushData_submitted:
  "indices_exists c index = Inr i_exists \<Longrightarrow>
   submitted (pushData c data index type) = submitted (pushDataInBulk c type index data)"
  by (simp add: submitted_def pushData_def connectToElasticsearch_def checkIfIndexExists_def
      createIndex_def emit_def return_io_def)

lemma retarget_pair:
  assumes "\<And>uri. search c' index' type' uri = search c index type uri"
  shows "directive_pair c' index' type' t = map (retarget index' type') (directive_pair c index type t)"
  using assms
  by (simp add: directive_pair_def resolved_def snd_getId insert_pair_def update_pair_def
      split: option.splits sum.splits)

lemma retarget_answered:
  assumes "\<And>uri. search c' index' type' uri = search c index type uri"
  shows "answered c' index' type' data = answered c index type data"
  using assms by (simp add: answered_def)

lemma updateVocabulary_is_with:
  "updateVocabulary c data = updateVocabulary_with ''oslo-terminology'' ''vocabularies'' c data"
  by (simp add: updateVocabulary_def updateVocabulary_with_def updateVocabulary_loop_with)

lemma updateApplicationProfile_is_with:
  "updateApplicationProfile c data =
     updateVocabulary_with ''oslo-application-profiles'' ''classes'' c data"
  by (simp add: updateApplicationProfile_def updateVocabulary_with_def
      updateApplicationProfile_loop_with)

section \<open>Claims about the key resolver\<close>

text \<open>
  Claim C1. When the search is answered with the hits \<open>result\<close>, \<open>getId\<close> returns the
  identifier of the first hit whose stored URI is equal to the target URI as a string.
  Every identifier it returns is therefore the identifier of a hit of the result set whose
  URI is exactly the target; a hit whose URI only resembles the target never supplies it.
\<close>

theorem getId_exact_match:
  assumes "search c index type uri = Inr result"
  shows "snd (getId uri index type c) =
           Inr (map_option hit_id (find (\<lambda>obj. source_URI obj = uri) result)) \<and>
         (\<forall>i. snd (getId uri index type c) = Inr (Some i) \<longrightarrow>
              (\<exists>obj \<in> set result. source_URI obj = uri \<and> hit_id obj = i))"
  using assms by (auto simp add: snd_getId dest: find_SomeD)

theorem getId_exact_match_witness:
  "search example_client ''oslo-terminology'' ''vocabularies'' ''a'' = Inr example_hits \<and>
   snd (getId ''a'' ''oslo-terminology'' ''vocabularies'' example_client) = Inr (Some ''id1'') \<and>
   (\<exists>obj \<in> set example_hits. source_URI obj = ''a'' \<and> hit_id obj = ''id1'')"
proof -
  have h: "search example_client ''oslo-terminology'' ''vocabularies'' ''a'' = Inr example_hits"
    by (simp add: example_client_def example_search_def)
  have r: "snd (getId ''a'' ''oslo-terminology'' ''vocabularies'' example_client) = Inr (Some ''id1'')"
    using getId_exact_match [OF h] by (simp add: example_hits_def)
  with h getId_exact_match [OF h] show ?thesis by blast
qed

text \<open>
  Claim C2. When the search is answered and no hit of the result set, empty or not, has
  a URI equal to the target, \<open>getId\<close> returns \<^verbatim>\<open>null\<close>.
\<close>

theorem getId_not_found:
  assumes "search c index type uri = Inr result"
      and "\<forall>obj \<in> set result. source_URI obj \<noteq> uri"
  shows "getId uri index type c = ([Search index type uri], Inr None)"
proof -
  from assms(2) have "find (\<lambda>obj. source_URI obj = uri) result = None"
    by (simp add: find_None_iff)
  with assms(1) have "snd (getId uri index type c) = Inr None"
    by (simp add: snd_getId)
  then show ?thesis
    by (subst getId_eq) simp
qed

theorem getId_not_found_witness:
  "search example_client ''oslo-terminology'' ''vocabularies'' ''b'' =
     Inr [\<lparr>hit_id = ''id2'', source_URI = ''ab''\<rparr>] \<and>
   getId ''b'' ''oslo-terminology'' ''vocabularies'' example_client =
     ([Search ''oslo-terminology'' ''vocabularies'' ''b''], Inr None)"
proof -
  have h: "search example_client ''oslo-terminology'' ''vocabularies'' ''b'' =
             Inr [\<lparr>hit_id = ''id2'', source_URI = ''ab''\<rparr>]"
    by (simp add: example_client_def example_search_def)
  have n: "\<forall>obj \<in> set [\<lparr>hit_id = ''id2'', source_URI = ''ab''\<rparr>]. source_URI obj \<noteq> ''b''"
    by simp
  from h n getId_not_found [OF h n] show ?thesis by blast
qed

section \<open>Claims about the full synchronisation\<close>

lemma with_counts:
  assumes "answered c index type data"
  shows "\<exists>bulk. submitted (updateVocabulary_with index type c data) = [bulk] \<and>
           length bulk = 2 * length data \<and>
           count_updates bulk = length (filter (has_nonempty_identifier c index type) data) \<and>
           count_inserts bulk =
             length data - length (filter (has_nonempty_identifier c index type) data)"
  using assms
  by (simp add: updateVocabulary_with_submitted length_concat_pairs count_updates_pairs
      count_inserts_pairs)

lemma with_order:
  assumes "bulk \<in> set (submitted (updateVocabulary_with index type c data))"
      and "k < length data"
  shows "bulk = concat (map (directive_pair c index type) data) \<and>
         (bulk ! (2 * k) = Index_directive index type \<and>
          bulk ! (2 * k + 1) = Term_payload (data ! k) \<or>
          (\<exists>i. bulk ! (2 * k) = Update_directive index type i \<and>
               bulk ! (2 * k + 1) =
                 Doc_payload [(''prefLabel'', prefLabel (data ! k)), (''URI'', URI (data ! k)),
                              (''definition'', term_definition (data ! k)),
                              (''context'', term_context (data ! k))]))"
proof -
  from assms(1) have b: "bulk = concat (map (directive_pair c index type) data)"
    by (simp add: updateVocabulary_with_submitted split: if_splits)
  have nth: "bulk ! (2 * k) = directive_pair c index type (data ! k) ! 0"
            "bulk ! (2 * k + 1) = directive_pair c index type (data ! k) ! 1"
    using nth_concat_pairs [of "directive_pair c index type" k data] assms(2) b by simp_all
  from directive_pair_cases [of c index type "data ! k"] nth b show ?thesis
    by (auto simp add: insert_pair_def update_pair_def)
qed

lemma with_update_payload:
  assumes "bulk \<in> set (submitted (updateVocabulary_with index type c data))"
      and "n < length bulk" and "is_update (bulk ! n)"
  shows "\<exists>k i result obj. n = 2 * k \<and> k < length data \<and>
           bulk ! n = Update_directive index type i \<and>
           bulk ! (n + 1) =
             Doc_payload [(''prefLabel'', prefLabel (data ! k)), (''URI'', URI (data ! k)),
                          (''definition'', term_definition (data ! k)),
                          (''context'', term_context (data ! k))] \<and>
           search c index type (URI (data ! k)) = Inr result \<and> obj \<in> set result \<and>
           hit_id obj = i \<and> source_URI obj = URI (data ! k)"
proof -
  from assms(1) have b: "bulk = concat (map (directive_pair c index type) data)"
    by (simp add: updateVocabulary_with_submitted split: if_splits)
  from assms(2,3) show ?thesis
    unfolding b by (rule update_in_pairs)
qed

lemma with_resolved_update:
  assumes "bulk \<in> set (submitted (updateVocabulary_with index type c data))"
      and "k < length data" and "resolved c index type (data ! k) = Some i" and "i \<noteq> []"
  shows "bulk ! (2 * k) = Update_directive index type i \<and>
         bulk ! (2 * k + 1) =
           Doc_payload [(''prefLabel'', prefLabel (data ! k)), (''URI'', URI (data ! k)),
                        (''definition'', term_definition (data ! k)),
                        (''context'', term_context (data ! k))]"
proof -
  from assms(1) have b: "bulk = concat (map (directive_pair c index type) data)"
    by (simp add: updateVocabulary_with_submitted split: if_splits)
  have nth: "bulk ! (2 * k) = directive_pair c index type (data ! k) ! 0"
            "bulk ! (2 * k + 1) = directive_pair c index type (data ! k) ! 1"
    using nth_concat_pairs [of "directive_pair c index type" k data] assms(2) b by simp_all
  from assms(3,4) have "directive_pair c index type (data ! k) = update_pair index type i (data ! k)"
    by (simp add: directive_pair_def)
  with nth show ?thesis by (simp add: update_pair_def)
qed

lemma example_resolved_a [simp]: "resolved example_client index type record_a = Some ''id1''"
  by (simp add: resolved_def snd_getId example_client_def example_search_def example_hits_def
      record_a_def)

lemma example_resolved_b [simp]: "resolved example_client index type record_b = None"
  by (simp add: resolved_def snd_getId example_client_def example_search_def record_b_def)

lemma example_answered [simp]: "answered example_client index type data"
  by (simp add: answered_def example_client_def example_search_def list_all_iff)

lemma example_assigned [simp]: "identifiers_assigned example_client index type data"
  by (simp add: identifiers_assigned_def example_client_def example_search_def example_hits_def
      list_all_iff)

lemma assigned_resolved:
  assumes "identifiers_assigned c index type data" and "t \<in> set data"
      and "resolved c index type t = Some i"
  shows "i \<noteq> []"
proof -
  from resolved_Some [OF assms(3)] obtain result obj where
    r: "search c index type (URI t) = Inr result" "obj \<in> set result" "hit_id obj = i"
    by blast
  from assms(1,2) r(1) have "\<forall>h \<in> set result. hit_id h \<noteq> []"
    by (auto simp add: identifiers_assigned_def list_all_iff)
  with r(2,3) show ?thesis by blast
qed

lemma assigned_has_identifier:
  assumes "identifiers_assigned c index type data" and "t \<in> set data"
  shows "has_nonempty_identifier c index type t = has_identifier c index type t"
  using assigned_resolved [OF assms]
  by (auto simp add: has_nonempty_identifier_def has_identifier_def split: option.splits)

lemma assigned_filter:
  assumes "identifiers_assigned c index type data"
  shows "filter (has_nonempty_identifier c index type) data =
           filter (has_identifier c index type) data"
    and "filter (\<lambda>t. \<not> has_nonempty_identifier c index type t) data =
           filter (\<lambda>t. \<not> has_identifier c index type t) data"
  using assigned_has_identifier [OF assms] by (auto intro: filter_cong)

lemma with_counts_assigned:
  assumes "answered c index type data" and "identifiers_assigned c index type data"
  shows "\<exists>bulk. submitted (updateVocabulary_with index type c data) = [bulk] \<and>
           length bulk = 2 * length data \<and>
           count_updates bulk = length (filter (has_identifier c index type) data) \<and>
           count_inserts bulk =
             length data - length (filter (has_identifier c index type) data)"
  using with_counts [OF assms(1)] by (simp add: assigned_filter(1) [OF assms(2)])

lemma with_resolved_payload:
  assumes "answered c index type data" and "identifiers_assigned c index type data"
  shows "\<exists>bulk. submitted (updateVocabulary_with index type c data) = [bulk] \<and>
           (\<forall>k < length data. \<forall>i. resolved c index type (data ! k) = Some i \<longrightarrow>
              bulk ! (2 * k) = Update_directive index type i \<and>
              bulk ! (2 * k + 1) =
                Doc_payload [(''prefLabel'', prefLabel (data ! k)), (''URI'', URI (data ! k)),
                             (''definition'', term_definition (data ! k)),
                             (''context'', term_context (data ! k))] \<and>
              doc_field_names (bulk ! (2 * k + 1)) =
                [''prefLabel'', ''URI'', ''definition'', ''context''] \<and>
              ''_id'' \<notin> set (doc_field_names (bulk ! (2 * k + 1))) \<and>
              (\<exists>result obj. search c index type (URI (data ! k)) = Inr result \<and>
                 obj \<in> set result \<and> hit_id obj = i \<and> source_URI obj = URI (data ! k)))"
proof -
  let ?bulk = "concat (map (directive_pair c index type) data)"
  have s: "submitted (updateVocabulary_with index type c data) = [?bulk]"
    using assms(1) by (simp add: updateVocabulary_with_submitted)
  then have m: "?bulk \<in> set (submitted (updateVocabulary_with index type c data))"
    by simp
  have "?bulk ! (2 * k) = Update_directive index type i \<and>
        ?bulk ! (2 * k + 1) =
          Doc_payload [(''prefLabel'', prefLabel (data ! k)), (''URI'', URI (data ! k)),
                       (''definition'', term_definition (data ! k)),
                       (''context'', term_context (data ! k))] \<and>
        doc_field_names (?bulk ! (2 * k + 1)) =
          [''prefLabel'', ''URI'', ''definition'', ''context''] \<and>
        ''_id'' \<notin> set (doc_field_names (?bulk ! (2 * k + 1))) \<and>
        (\<exists>result obj. search c index type (URI (data ! k)) = Inr result \<and>
           obj \<in> set result \<and> hit_id obj = i \<and> source_URI obj = URI (data ! k))"
    if k: "k < length data" and r: "resolved c index type (data ! k) = Some i" for k i
  proof -
    from k have "data ! k \<in> set data" by simp
    from assigned_resolved [OF assms(2) this r] have "i \<noteq> []" .
    from with_resolved_update [OF m k r this] have
      p: "?bulk ! (2 * k) = Update_directive index type i"
         "?bulk ! (2 * k + 1) =
            Doc_payload [(''prefLabel'', prefLabel (data ! k)), (''URI'', URI (data ! k)),
                         (''definition'', term_definition (data ! k)),
                         (''context'', term_context (data ! k))]"
      by simp_all
    from p(2) have
      "doc_field_names (?bulk ! (2 * k + 1)) = [''prefLabel'', ''URI'', ''definition'', ''context'']"
      "''_id'' \<notin> set (doc_field_names (?bulk ! (2 * k + 1)))"
      by simp_all
    with p resolved_Some [OF r] show ?thesis by blast
  qed
  with s show ?thesis by blast
qed

text \<open>
  Claim C3. When every lookup of a batch of N records is answered, by an engine whose
  identifiers are assigned, and M of the records resolve to an identifier, then
  \<open>updateVocabulary\<close> and \<open>updateApplicationProfile\<close> submit one list, of 2N entries,
  with M update directives and N - M insert directives. The one list of 2N entries needs
  only that the lookups are answered.
\<close>

theorem full_sync_directive_counts:
  "(answered c ''oslo-terminology'' ''vocabularies'' data \<longrightarrow>
      (\<exists>bulk. submitted (updateVocabulary c data) = [bulk] \<and>
         length bulk = 2 * length data)) \<and>
   (answered c ''oslo-application-profiles'' ''classes'' data \<longrightarrow>
      (\<exists>bulk. submitted (updateApplicationProfile c data) = [bulk] \<and>
         length bulk = 2 * length data)) \<and>
   (answered c ''oslo-terminology'' ''vocabularies'' data \<and>
    identifiers_assigned c ''oslo-terminology'' ''vocabularies'' data \<longrightarrow>
      (\<exists>bulk. submitted (updateVocabulary c data) = [bulk] \<and>
         length bulk = 2 * length data \<and>
         count_updates bulk =
           length (filter (has_identifier c ''oslo-terminology'' ''vocabularies'') data) \<and>
         count_inserts bulk = length data -
           length (filter (has_identifier c ''oslo-terminology'' ''vocabularies'') data))) \<and>
   (answered c ''oslo-application-profiles'' ''classes'' data \<and>
    identifiers_assigned c ''oslo-application-profiles'' ''classes'' data \<longrightarrow>
      (\<exists>bulk. submitted (updateApplicationProfile c data) = [bulk] \<and>
         length bulk = 2 * length data \<and>
         count_updates bulk =
           length (filter (has_identifier c ''oslo-application-profiles'' ''classes'') data) \<and>
         count_inserts bulk = length data -
           length (filter (has_identifier c ''oslo-application-profiles'' ''classes'') data)))"
proof (intro conjI impI)
  assume "answered c ''oslo-terminology'' ''vocabularies'' data"
  from with_counts [OF this]
  show "\<exists>bulk. submitted (updateVocabulary c data) = [bulk] \<and> length bulk = 2 * length data"
    unfolding updateVocabulary_is_with by blast
next
  assume "answered c ''oslo-application-profiles'' ''classes'' data"
  from with_counts [OF this]
  show "\<exists>bulk. submitted (updateApplicationProfile c data) = [bulk] \<and>
          length bulk = 2 * length data"
    unfolding updateApplicationProfile_is_with by blast
next
  assume "answered c ''oslo-terminology'' ''vocabularies'' data \<and>
    identifiers_assigned c ''oslo-terminology'' ''vocabularies'' data"
  then show "\<exists>bulk. submitted (updateVocabulary c data) = [bulk] \<and>
         length bulk = 2 * length data \<and>
         count_updates bulk =
           length (filter (has_identifier c ''oslo-terminology'' ''vocabularies'') data) \<and>
         count_inserts bulk = length data -
           length (filter (has_identifier c ''oslo-terminology'' ''vocabularies'') data)"
    unfolding updateVocabulary_is_with by (blast intro: with_counts_assigned)
next
  assume "answered c ''oslo-application-profiles'' ''classes'' data \<and>
    identifiers_assigned c ''oslo-application-profiles'' ''classes'' data"
  then show "\<exists>bulk. submitted (updateApplicationProfile c data) = [bulk] \<and>
         length bulk = 2 * length data \<and>
         count_updates bulk =
           length (filter (has_identifier c ''oslo-application-profiles'' ''classes'') data) \<and>
         count_inserts bulk = length data -
           length (filter (has_identifier c ''oslo-application-profiles'' ''classes'') data)"
    unfolding updateApplicationProfile_is_with by (blast intro: with_counts_assigned)
qed

theorem full_sync_directive_counts_witness:
  "answered example_client ''oslo-terminology'' ''vocabularies'' [record_a, record_b] \<and>
   identifiers_assigned example_client ''oslo-terminology'' ''vocabularies'' [record_a, record_b] \<and>
   length (filter (has_identifier example_client ''oslo-terminology'' ''vocabularies'')
     [record_a, record_b]) = 1 \<and>
   (\<exists>bulk. submitted (updateVocabulary example_client [record_a, record_b]) = [bulk] \<and>
      length bulk = 4 \<and> count_updates bulk = 1 \<and> count_inserts bulk = 1) \<and>
   (\<exists>bulk. submitted (updateApplicationProfile example_client [record_a, record_b]) = [bulk] \<and>
      length bulk = 4 \<and> count_updates bulk = 1 \<and> count_inserts bulk = 1)"
proof -
  note counts = full_sync_directive_counts [of example_client "[record_a, record_b]",
    THEN conjunct2, THEN conjunct2]
  have m: "length (filter (has_identifier example_client index type) [record_a, record_b]) = 1"
    for index type
    by (simp add: has_identifier_def)
  from counts [THEN conjunct1]
  have v: "\<exists>bulk. submitted (updateVocabulary example_client [record_a, record_b]) = [bulk] \<and>
      length bulk = 4 \<and> count_updates bulk = 1 \<and> count_inserts bulk = 1"
    by (simp add: has_identifier_def)
  from counts [THEN conjunct2]
  have a: "\<exists>bulk. submitted (updateApplicationProfile example_client [record_a, record_b]) = [bulk] \<and>
      length bulk = 4 \<and> count_updates bulk = 1 \<and> count_inserts bulk = 1"
    by (simp add: has_identifier_def)
  from v a m show ?thesis by simp
qed

text \<open>
  Claim C4. Every list submitted by \<open>updateVocabulary\<close> or \<open>updateApplicationProfile\<close>
  is the concatenation, in input order, of the pairs of the records: the pair of record
  \<open>k\<close> is at the positions \<open>2k\<close> and \<open>2k + 1\<close>, an insert directive with the record
  itself or an update directive with the document of that record. So the pair of record
  \<open>i\<close> comes before the pair of record \<open>j\<close> whenever \<open>i < j\<close>. When every lookup is
  answered, such a list is submitted.
\<close>

theorem full_sync_order:
  "(\<forall>bulk \<in> set (submitted (updateVocabulary c data)). \<forall>k < length data.
      bulk = concat (map (directive_pair c ''oslo-terminology'' ''vocabularies'') data) \<and>
      (bulk ! (2 * k) = Index_directive ''oslo-terminology'' ''vocabularies'' \<and>
       bulk ! (2 * k + 1) = Term_payload (data ! k) \<or>
       (\<exists>i. bulk ! (2 * k) = Update_directive ''oslo-terminology'' ''vocabularies'' i \<and>
            bulk ! (2 * k + 1) =
              Doc_payload [(''prefLabel'', prefLabel (data ! k)), (''URI'', URI (data ! k)),
                           (''definition'', term_definition (data ! k)),
                           (''context'', term_context (data ! k))]))) \<and>
   (\<forall>bulk \<in> set (submitted (updateApplicationProfile c data)). \<forall>k < length data.
      bulk = concat (map (directive_pair c ''oslo-application-profiles'' ''classes'') data) \<and>
      (bulk ! (2 * k) = Index_directive ''oslo-application-profiles'' ''classes'' \<and>
       bulk ! (2 * k + 1) = Term_payload (data ! k) \<or>
       (\<exists>i. bulk ! (2 * k) = Update_directive ''oslo-application-profiles'' ''classes'' i \<and>
            bulk ! (2 * k + 1) =
              Doc_payload [(''prefLabel'', prefLabel (data ! k)), (''URI'', URI (data ! k)),
                           (''definition'', term_definition (data ! k)),
                           (''context'', term_context (data ! k))]))) \<and>
   (answered c ''oslo-terminology'' ''vocabularies'' data \<longrightarrow>
      length (submitted (updateVocabulary c data)) = 1) \<and>
   (answered c ''oslo-application-profiles'' ''classes'' data \<longrightarrow>
      length (submitted (updateApplicationProfile c data)) = 1)"
proof -
  have "\<forall>bulk \<in> set (submitted (updateVocabulary c data)). \<forall>k < length data.
      bulk = concat (map (directive_pair c ''oslo-terminology'' ''vocabularies'') data) \<and>
      (bulk ! (2 * k) = Index_directive ''oslo-terminology'' ''vocabularies'' \<and>
       bulk ! (2 * k + 1) = Term_payload (data ! k) \<or>
       (\<exists>i. bulk ! (2 * k) = Update_directive ''oslo-terminology'' ''vocabularies'' i \<and>
            bulk ! (2 * k + 1) =
              Doc_payload [(''prefLabel'', prefLabel (data ! k)), (''URI'', URI (data ! k)),
                           (''definition'', term_definition (data ! k)),
                           (''context'', term_context (data ! k))]))"
    unfolding updateVocabulary_is_with by (intro ballI allI impI) (rule with_order)
  moreover have "\<forall>bulk \<in> set (submitted (updateApplicationProfile c data)). \<forall>k < length data.
      bulk = concat (map (directive_pair c ''oslo-application-profiles'' ''classes'') data) \<and>
      (bulk ! (2 * k) = Index_directive ''oslo-application-profiles'' ''classes'' \<and>
       bulk ! (2 * k + 1) = Term_payload (data ! k) \<or>
       (\<exists>i. bulk ! (2 * k) = Update_directive ''oslo-application-profiles'' ''classes'' i \<and>
            bulk ! (2 * k + 1) =
              Doc_payload [(''prefLabel'', prefLabel (data ! k)), (''URI'', URI (data ! k)),
                           (''definition'', term_definition (data ! k)),
                           (''context'', term_context (data ! k))]))"
    unfolding updateApplicationProfile_is_with by (intro ballI allI impI) (rule with_order)
  moreover have "answered c ''oslo-terminology'' ''vocabularies'' data \<longrightarrow>
      length (submitted (updateVocabulary c data)) = 1"
    by (simp add: updateVocabulary_is_with updateVocabulary_with_submitted)
  moreover have "answered c ''oslo-application-profiles'' ''classes'' data \<longrightarrow>
      length (submitted (updateApplicationProfile c data)) = 1"
    by (simp add: updateApplicationProfile_is_with updateVocabulary_with_submitted)
  ultimately show ?thesis by blast
qed

theorem full_sync_order_witness:
  "submitted (updateVocabulary example_client [record_a, record_b]) =
     [[Update_directive ''oslo-terminology'' ''vocabularies'' ''id1'',
       Doc_payload [(''prefLabel'', ''A''), (''URI'', ''a''), (''definition'', ''first''),
                    (''context'', ''ctx'')],
       Index_directive ''oslo-terminology'' ''vocabularies'',
       Term_payload record_b]] \<and>
   length (submitted (updateApplicationProfile example_client [record_a, record_b])) = 1"
  using full_sync_order [of example_client "[record_a, record_b]"]
  by (simp add: updateVocabulary_is_with updateVocabulary_with_submitted directive_pair_def
      insert_pair_def update_pair_def) (simp add: record_a_def)

text \<open>
  Claim C7. When every lookup of a batch is answered, by an engine whose identifiers are
  assigned, \<open>updateVocabulary\<close> and \<open>updateApplicationProfile\<close> submit one list, and
  in it every record that resolves to an identifier has, at its positions \<open>2k\<close> and
  \<open>2k + 1\<close>, an update directive for that identifier and a document of exactly the four
  fields \<^verbatim>\<open>prefLabel\<close>, \<^verbatim>\<open>URI\<close>, \<^verbatim>\<open>definition\<close> and \<^verbatim>\<open>context\<close> with the values of
  the record. The document has no \<^verbatim>\<open>_id\<close> field, and the URI it writes is the URI
  already stored in the hit that supplied the identifier. Conversely, on any engine, every
  update directive of a submitted list is such a directive of the record at its position,
  followed by such a document.
\<close>

theorem update_payload_fields:
  "(answered c ''oslo-terminology'' ''vocabularies'' data \<longrightarrow>
      length (submitted (updateVocabulary c data)) = 1) \<and>
   (answered c ''oslo-application-profiles'' ''classes'' data \<longrightarrow>
      length (submitted (updateApplicationProfile c data)) = 1) \<and>
   (answered c ''oslo-terminology'' ''vocabularies'' data \<and>
    identifiers_assigned c ''oslo-terminology'' ''vocabularies'' data \<longrightarrow>
      (\<exists>bulk. submitted (updateVocabulary c data) = [bulk] \<and>
         (\<forall>k < length data. \<forall>i.
            resolved c ''oslo-terminology'' ''vocabularies'' (data ! k) = Some i \<longrightarrow>
              bulk ! (2 * k) = Update_directive ''oslo-terminology'' ''vocabularies'' i \<and>
              bulk ! (2 * k + 1) =
                Doc_payload [(''prefLabel'', prefLabel (data ! k)), (''URI'', URI (data ! k)),
                             (''definition'', term_definition (data ! k)),
                             (''context'', term_context (data ! k))] \<and>
              doc_field_names (bulk ! (2 * k + 1)) =
                [''prefLabel'', ''URI'', ''definition'', ''context''] \<and>
              ''_id'' \<notin> set (doc_field_names (bulk ! (2 * k + 1))) \<and>
              (\<exists>result obj. search c ''oslo-terminology'' ''vocabularies'' (URI (data ! k)) = Inr result \<and>
                 obj \<in> set result \<and> hit_id obj = i \<and>
                 source_URI obj = URI (data ! k))))) \<and>
   (answered c ''oslo-application-profiles'' ''classes'' data \<and>
    identifiers_assigned c ''oslo-application-profiles'' ''classes'' data \<longrightarrow>
      (\<exists>bulk. submitted (updateApplicationProfile c data) = [bulk] \<and>
         (\<forall>k < length data. \<forall>i.
            resolved c ''oslo-application-profiles'' ''classes'' (data ! k) = Some i \<longrightarrow>
              bulk ! (2 * k) = Update_directive ''oslo-application-profiles'' ''classes'' i \<and>
              bulk ! (2 * k + 1) =
                Doc_payload [(''prefLabel'', prefLabel (data ! k)), (''URI'', URI (data ! k)),
                             (''definition'', term_definition (data ! k)),
                             (''context'', term_context (data ! k))] \<and>
              doc_field_names (bulk ! (2 * k + 1)) =
                [''prefLabel'', ''URI'', ''definition'', ''context''] \<and>
              ''_id'' \<notin> set (doc_field_names (bulk ! (2 * k + 1))) \<and>
              (\<exists>result obj. search c ''oslo-application-profiles'' ''classes'' (URI (data ! k)) = Inr result \<and>
                 obj \<in> set result \<and> hit_id obj = i \<and>
                 source_URI obj = URI (data ! k))))) \<and>
   (\<forall>bulk \<in> set (submitted (updateVocabulary c data)). \<forall>n < length bulk.
      is_update (bulk ! n) \<longrightarrow>
        (\<exists>k i result obj. n = 2 * k \<and> k < length data \<and>
           bulk ! n = Update_directive ''oslo-terminology'' ''vocabularies'' i \<and>
           bulk ! (n + 1) =
             Doc_payload [(''prefLabel'', prefLabel (data ! k)), (''URI'', URI (data ! k)),
                          (''definition'', term_definition (data ! k)),
                          (''context'', term_context (data ! k))] \<and>
           doc_field_names (bulk ! (n + 1)) =
             [''prefLabel'', ''URI'', ''definition'', ''context''] \<and>
           ''_id'' \<notin> set (doc_field_names (bulk ! (n + 1))) \<and>
           search c ''oslo-terminology'' ''vocabularies'' (URI (data ! k)) = Inr result \<and>
           obj \<in> set result \<and> hit_id obj = i \<and> source_URI obj = URI (data ! k))) \<and>
   (\<forall>bulk \<in> set (submitted (updateApplicationProfile c data)). \<forall>n < length bulk.
      is_update (bulk ! n) \<longrightarrow>
        (\<exists>k i result obj. n = 2 * k \<and> k < length data \<and>
           bulk ! n = Update_directive ''oslo-application-profiles'' ''classes'' i \<and>
           bulk ! (n + 1) =
             Doc_payload [(''prefLabel'', prefLabel (data ! k)), (''URI'', URI (data ! k)),
                          (''definition'', term_definition (data ! k)),
                          (''context'', term_context (data ! k))] \<and>
           doc_field_names (bulk ! (n + 1)) =
             [''prefLabel'', ''URI'', ''definition'', ''context''] \<and>
           ''_id'' \<notin> set (doc_field_names (bulk ! (n + 1))) \<and>
           search c ''oslo-application-profiles'' ''classes'' (URI (data ! k)) = Inr result \<and>
           obj \<in> set result \<and> hit_id obj = i \<and> source_URI obj = URI (data ! k)))"
proof -
  have one: "answered c index type data \<longrightarrow>
      length (submitted (updateVocabulary_with index type c data)) = 1" for index type
    by (simp add: updateVocabulary_with_submitted)
  have resolved_rec: "answered c index type data \<and>
    identifiers_assigned c index type data \<longrightarrow>
      (\<exists>bulk. submitted (updateVocabulary_with index type c data) = [bulk] \<and>
         (\<forall>k < length data. \<forall>i.
            resolved c index type (data ! k) = Some i \<longrightarrow>
              bulk ! (2 * k) = Update_directive index type i \<and>
              bulk ! (2 * k + 1) =
                Doc_payload [(''prefLabel'', prefLabel (data ! k)), (''URI'', URI (data ! k)),
                             (''definition'', term_definition (data ! k)),
                             (''context'', term_context (data ! k))] \<and>
              doc_field_names (bulk ! (2 * k + 1)) =
                [''prefLabel'', ''URI'', ''definition'', ''context''] \<and>
              ''_id'' \<notin> set (doc_field_names (bulk ! (2 * k + 1))) \<and>
              (\<exists>result obj. search c index type (URI (data ! k)) = Inr result \<and>
                 obj \<in> set result \<and> hit_id obj = i \<and>
                 source_URI obj = URI (data ! k))))"
    for index type
    using with_resolved_payload [of c index type data] by blast
  have directive: "\<forall>bulk \<in> set (submitted (updateVocabulary_with index type c data)). \<forall>n < length bulk.
      is_update (bulk ! n) \<longrightarrow>
        (\<exists>k i result obj. n = 2 * k \<and> k < length data \<and>
           bulk ! n = Update_directive index type i \<and>
           bulk ! (n + 1) =
             Doc_payload [(''prefLabel'', prefLabel (data ! k)), (''URI'', URI (data ! k)),
                          (''definition'', term_definition (data ! k)),
                          (''context'', term_context (data ! k))] \<and>
           doc_field_names (bulk ! (n + 1)) =
             [''prefLabel'', ''URI'', ''definition'', ''context''] \<and>
           ''_id'' \<notin> set (doc_field_names (bulk ! (n + 1))) \<and>
           search c index type (URI (data ! k)) = Inr result \<and>
           obj \<in> set result \<and> hit_id obj = i \<and> source_URI obj = URI (data ! k))"
    for index type
  proof (intro ballI allI impI)
    fix bulk n
    assume b: "bulk \<in> set (submitted (updateVocabulary_with index type c data))"
      and n: "n < length bulk" "is_update (bulk ! n)"
    from with_update_payload [OF b n] obtain k i result obj where
      h: "n = 2 * k" "k < length data" "bulk ! n = Update_directive index type i"
         "bulk ! (n + 1) =
            Doc_payload [(''prefLabel'', prefLabel (data ! k)), (''URI'', URI (data ! k)),
                         (''definition'', term_definition (data ! k)),
                         (''context'', term_context (data ! k))]"
         "search c index type (URI (data ! k)) = Inr result" "obj \<in> set result"
         "hit_id obj = i" "source_URI obj = URI (data ! k)"
      by blast
    from h(4) have
      "doc_field_names (bulk ! (n + 1)) = [''prefLabel'', ''URI'', ''definition'', ''context'']"
      "''_id'' \<notin> set (doc_field_names (bulk ! (n + 1)))"
      by simp_all
    with h show "\<exists>k i result obj. n = 2 * k \<and> k < length data \<and>
           bulk ! n = Update_directive index type i \<and>
           bulk ! (n + 1) =
             Doc_payload [(''prefLabel'', prefLabel (data ! k)), (''URI'', URI (data ! k)),
                          (''definition'', term_definition (data ! k)),
                          (''context'', term_context (data ! k))] \<and>
           doc_field_names (bulk ! (n + 1)) =
             [''prefLabel'', ''URI'', ''definition'', ''context''] \<and>
           ''_id'' \<notin> set (doc_field_names (bulk ! (n + 1))) \<and>
           search c index type (URI (data ! k)) = Inr result \<and>
           obj \<in> set result \<and> hit_id obj = i \<and> source_URI obj = URI (data ! k)"
      by blast
  qed
  show ?thesis
    unfolding updateVocabulary_is_with updateApplicationProfile_is_with
    apply (rule conjI, rule one)
    apply (rule conjI, rule one)
    apply (rule conjI, rule resolved_rec)
    apply (rule conjI, rule resolved_rec)
    apply (rule conjI, rule directive)
    apply (rule directive)
    done
qed

theorem update_payload_fields_witness:
  "answered example_client ''oslo-application-profiles'' ''classes'' [record_a, record_b] \<and>
   identifiers_assigned example_client ''oslo-application-profiles'' ''classes'' [record_a, record_b] \<and>
   resolved example_client ''oslo-application-profiles'' ''classes'' record_a = Some ''id1'' \<and>
   (\<exists>bulk. submitted (updateApplicationProfile example_client [record_a, record_b]) = [bulk] \<and>
      bulk ! 0 = Update_directive ''oslo-application-profiles'' ''classes'' ''id1'' \<and>
      bulk ! 1 = Doc_payload [(''prefLabel'', ''A''), (''URI'', ''a''),
                              (''definition'', ''first''), (''context'', ''ctx'')] \<and>
      doc_field_names (bulk ! 1) = [''prefLabel'', ''URI'', ''definition'', ''context'']) \<and>
   (\<exists>bulk. submitted (updateVocabulary example_client [record_a, record_b]) = [bulk] \<and>
      bulk ! 0 = Update_directive ''oslo-terminology'' ''vocabularies'' ''id1'' \<and>
      bulk ! 1 = Doc_payload [(''prefLabel'', ''A''), (''URI'', ''a''),
                              (''definition'', ''first''), (''context'', ''ctx'')] \<and>
      doc_field_names (bulk ! 1) = [''prefLabel'', ''URI'', ''definition'', ''context''])"
proof -
  note recs = update_payload_fields [of example_client "[record_a, record_b]",
    THEN conjunct2, THEN conjunct2]
  have f: "prefLabel record_a = ''A''" "URI record_a = ''a''"
          "term_definition record_a = ''first''" "term_context record_a = ''ctx''"
    by (simp_all add: record_a_def)
  from recs [THEN conjunct1] obtain bulk where
    v: "submitted (updateVocabulary example_client [record_a, record_b]) = [bulk]"
       "\<forall>k < length [record_a, record_b]. \<forall>i.
          resolved example_client ''oslo-terminology'' ''vocabularies'' ([record_a, record_b] ! k) = Some i \<longrightarrow>
            bulk ! (2 * k) = Update_directive ''oslo-terminology'' ''vocabularies'' i \<and>
            bulk ! (2 * k + 1) =
              Doc_payload [(''prefLabel'', prefLabel ([record_a, record_b] ! k)),
                           (''URI'', URI ([record_a, record_b] ! k)),
                           (''definition'', term_definition ([record_a, record_b] ! k)),
                           (''context'', term_context ([record_a, record_b] ! k))] \<and>
            doc_field_names (bulk ! (2 * k + 1)) =
              [''prefLabel'', ''URI'', ''definition'', ''context'']"
    by auto
  from v(2) [rule_format, of 0 "''id1''"] f
  have v0: "bulk ! 0 = Update_directive ''oslo-terminology'' ''vocabularies'' ''id1'' \<and>
      bulk ! 1 = Doc_payload [(''prefLabel'', ''A''), (''URI'', ''a''),
                              (''definition'', ''first''), (''context'', ''ctx'')] \<and>
      doc_field_names (bulk ! 1) = [''prefLabel'', ''URI'', ''definition'', ''context'']"
    by simp
  from recs [THEN conjunct2, THEN conjunct1] obtain bulk' where
    a: "submitted (updateApplicationProfile example_client [record_a, record_b]) = [bulk']"
       "\<forall>k < length [record_a, record_b]. \<forall>i.
          resolved example_client ''oslo-application-profiles'' ''classes'' ([record_a, record_b] ! k) = Some i \<longrightarrow>
            bulk' ! (2 * k) = Update_directive ''oslo-application-profiles'' ''classes'' i \<and>
            bulk' ! (2 * k + 1) =
              Doc_payload [(''prefLabel'', prefLabel ([record_a, record_b] ! k)),
                           (''URI'', URI ([record_a, record_b] ! k)),
                           (''definition'', term_definition ([record_a, record_b] ! k)),
                           (''context'', term_context ([record_a, record_b] ! k))] \<and>
            doc_field_names (bulk' ! (2 * k + 1)) =
              [''prefLabel'', ''URI'', ''definition'', ''context'']"
    by auto
  from a(2) [rule_format, of 0 "''id1''"] f
  have a0: "bulk' ! 0 = Update_directive ''oslo-application-profiles'' ''classes'' ''id1'' \<and>
      bulk' ! 1 = Doc_payload [(''prefLabel'', ''A''), (''URI'', ''a''),
                              (''definition'', ''first''), (''context'', ''ctx'')] \<and>
      doc_field_names (bulk' ! 1) = [''prefLabel'', ''URI'', ''definition'', ''context'']"
    by simp
  from v(1) v0 a(1) a0 show ?thesis by simp
qed

text \<open>
  Claim C10. \<open>updateVocabulary\<close> is \<open>updateVocabulary_with\<close> at its own two constants,
  and \<open>updateApplicationProfile\<close> is \<open>updateVocabulary_with\<close> at
  \<^verbatim>\<open>'oslo-application-profiles'\<close> and \<^verbatim>\<open>'classes'\<close>: the same events and the same
  outcome, for every engine and every batch. When the lookups of the second collection
  are answered as those of the first are, the list \<open>updateApplicationProfile\<close> submits is
  the list of \<open>updateVocabulary\<close> with the two constants replaced in its directives.
\<close>

theorem updateApplicationProfile_as_updateVocabulary:
  "updateVocabulary c data = updateVocabulary_with ''oslo-terminology'' ''vocabularies'' c data \<and>
   updateApplicationProfile c data =
     updateVocabulary_with ''oslo-application-profiles'' ''classes'' c data \<and>
   ((\<forall>uri. search c' ''oslo-application-profiles'' ''classes'' uri =
           search c ''oslo-terminology'' ''vocabularies'' uri) \<longrightarrow>
      submitted (updateApplicationProfile c' data) =
        map (map (retarget ''oslo-application-profiles'' ''classes''))
          (submitted (updateVocabulary c data)))"
proof (intro conjI impI)
  show "updateVocabulary c data = updateVocabulary_with ''oslo-terminology'' ''vocabularies'' c data"
    by (rule updateVocabulary_is_with)
  show "updateApplicationProfile c data =
     updateVocabulary_with ''oslo-application-profiles'' ''classes'' c data"
    by (rule updateApplicationProfile_is_with)
next
  assume "\<forall>uri. search c' ''oslo-application-profiles'' ''classes'' uri =
           search c ''oslo-terminology'' ''vocabularies'' uri"
  then have same: "\<And>uri. search c' ''oslo-application-profiles'' ''classes'' uri =
           search c ''oslo-terminology'' ''vocabularies'' uri"
    by simp
  have "directive_pair c' ''oslo-application-profiles'' ''classes'' =
          (\<lambda>t. map (retarget ''oslo-application-profiles'' ''classes'')
             (directive_pair c ''oslo-terminology'' ''vocabularies'' t))"
    by (rule ext) (rule retarget_pair [OF same])
  then show "submitted (updateApplicationProfile c' data) =
        map (map (retarget ''oslo-application-profiles'' ''classes''))
          (submitted (updateVocabulary c data))"
    by (simp add: updateVocabulary_is_with updateApplicationProfile_is_with
        updateVocabulary_with_submitted retarget_answered [OF same] map_concat comp_def)
qed

theorem updateApplicationProfile_as_updateVocabulary_witness:
  "submitted (updateApplicationProfile example_client [record_a, record_b]) =
     map (map (retarget ''oslo-application-profiles'' ''classes''))
       (submitted (updateVocabulary example_client [record_a, record_b])) \<and>
   submitted (updateApplicationProfile example_client [record_a, record_b]) =
     [[Update_directive ''oslo-application-profiles'' ''classes'' ''id1'',
       Doc_payload [(''prefLabel'', ''A''), (''URI'', ''a''), (''definition'', ''first''),
                    (''context'', ''ctx'')],
       Index_directive ''oslo-application-profiles'' ''classes'',
       Term_payload record_b]]"
proof -
  have same: "\<forall>uri. search example_client ''oslo-application-profiles'' ''classes'' uri =
           search example_client ''oslo-terminology'' ''vocabularies'' uri"
    by (simp add: example_client_def example_search_def)
  have v: "submitted (updateVocabulary example_client [record_a, record_b]) =
     [[Update_directive ''oslo-terminology'' ''vocabularies'' ''id1'',
       Doc_payload [(''prefLabel'', ''A''), (''URI'', ''a''), (''definition'', ''first''),
                    (''context'', ''ctx'')],
       Index_directive ''oslo-terminology'' ''vocabularies'',
       Term_payload record_b]]"
    by (simp add: updateVocabulary_is_with updateVocabulary_with_submitted directive_pair_def
        insert_pair_def update_pair_def) (simp add: record_a_def)
  from same updateApplicationProfile_as_updateVocabulary
    [of example_client "[record_a, record_b]" example_client]
  have "submitted (updateApplicationProfile example_client [record_a, record_b]) =
     map (map (retarget ''oslo-application-profiles'' ''classes''))
       (submitted (updateVocabulary example_client [record_a, record_b]))"
    by blast
  then show ?thesis by (simp add: v)
qed

section \<open>Claims about the plain push\<close>

text \<open>
  Claim C5. No list that \<open>pushDataInBulk\<close> submits has an update directive. When
  every lookup of the batch is answered, by an engine whose identifiers are assigned, the
  list it accumulates holds one insert pair, in input order, for each record that does not
  resolve to an identifier, and nothing of the records that do: its length is twice the
  number of unresolved records. That list is what is submitted, unless it is empty.
\<close>

theorem pushDataInBulk_inserts_only:
  "(\<forall>bulk \<in> set (submitted (pushDataInBulk c type index data)). count_updates bulk = 0) \<and>
   (answered c index type data \<and> identifiers_assigned c index type data \<longrightarrow>
      (\<exists>bulk. snd (pushDataInBulk_loop c type index data []) = Inr bulk \<and>
         bulk = concat (map (insert_pair index type)
                  (filter (\<lambda>t. \<not> has_identifier c index type t) data)) \<and>
         length bulk = 2 * length (filter (\<lambda>t. \<not> has_identifier c index type t) data) \<and>
         count_updates bulk = 0 \<and>
         submitted (pushDataInBulk c type index data) = (if bulk = [] then [] else [bulk])))"
proof (intro conjI ballI impI)
  fix bulk assume "bulk \<in> set (submitted (pushDataInBulk c type index data))"
  then have "bulk = concat (map (push_pair c index type) data)"
    by (simp add: pushDataInBulk_submitted split: if_splits)
  then show "count_updates bulk = 0"
    by (simp add: push_pairs_filter count_updates_inserts)
next
  assume h: "answered c index type data \<and> identifiers_assigned c index type data"
  then have a: "answered c index type data" and i: "identifiers_assigned c index type data"
    by simp_all
  from push_loop_answered [OF a, of "[]"] a
  show "\<exists>bulk. snd (pushDataInBulk_loop c type index data []) = Inr bulk \<and>
         bulk = concat (map (insert_pair index type)
                  (filter (\<lambda>t. \<not> has_identifier c index type t) data)) \<and>
         length bulk = 2 * length (filter (\<lambda>t. \<not> has_identifier c index type t) data) \<and>
         count_updates bulk = 0 \<and>
         submitted (pushDataInBulk c type index data) = (if bulk = [] then [] else [bulk])"
    by (simp add: pushDataInBulk_submitted push_pairs_filter length_inserts
        count_updates_inserts assigned_filter(2) [OF i])
qed

theorem pushDataInBulk_inserts_only_witness:
  "answered example_client ''oslo-terminology'' ''vocabularies'' [record_a, record_b] \<and>
   identifiers_assigned example_client ''oslo-terminology'' ''vocabularies'' [record_a, record_b] \<and>
   has_identifier example_client ''oslo-terminology'' ''vocabularies'' record_a \<and>
   snd (pushDataInBulk_loop example_client ''vocabularies'' ''oslo-terminology''
          [record_a, record_b] []) =
     Inr [Index_directive ''oslo-terminology'' ''vocabularies'', Term_payload record_b] \<and>
   submitted (pushDataInBulk example_client ''vocabularies'' ''oslo-terminology''
                [record_a, record_b]) =
     [[Index_directive ''oslo-terminology'' ''vocabularies'', Term_payload record_b]]"
proof -
  have h: "answered example_client ''oslo-terminology'' ''vocabularies'' [record_a, record_b]"
          "identifiers_assigned example_client ''oslo-terminology'' ''vocabularies''
             [record_a, record_b]"
    by simp_all
  from h pushDataInBulk_inserts_only
    [of example_client "''vocabularies''" "''oslo-terminology''" "[record_a, record_b]",
     THEN conjunct2]
  show ?thesis
    by (simp add: has_identifier_def insert_pair_def)
qed

section \<open>Claims about the collections, the empty batch and the ping\<close>

text \<open>
  Claim C6. \<open>setupElasticsearch\<close> and \<open>pushData\<close> issue a creation request for a
  collection only when the existence check has reported that it is absent. When both
  checks of \<open>setupElasticsearch\<close> are answered, it ends without error and has requested
  the creation of exactly the collections reported absent; \<open>pushData\<close> likewise ends
  without error when its check is answered. Two calls of \<open>setupElasticsearch\<close> in a
  row, on handles that both report a collection as existing, request no creation of it.
\<close>

theorem ensure_collection_idempotent:
  "(\<forall>name. name \<in> set (created (fst (setupElasticsearch c))) \<longrightarrow>
      indices_exists c name = Inr False) \<and>
   (indices_exists c ''oslo-terminology'' = Inr t_exists \<and>
    indices_exists c ''oslo-application-profiles'' = Inr a_exists \<longrightarrow>
      snd (setupElasticsearch c) = Inr () \<and>
      created (fst (setupElasticsearch c)) =
        (if t_exists then [] else [''oslo-terminology'']) @
        (if a_exists then [] else [''oslo-application-profiles''])) \<and>
   (indices_exists c name = Inr True \<and> indices_exists c' name = Inr True \<longrightarrow>
      name \<notin> set (created (fst (setup_twice c c')))) \<and>
   (indices_exists c ''oslo-terminology'' = Inr True \<and>
    indices_exists c ''oslo-application-profiles'' = Inr True \<and>
    indices_exists c' ''oslo-terminology'' = Inr True \<and>
    indices_exists c' ''oslo-application-profiles'' = Inr True \<longrightarrow>
      snd (setup_twice c c') = Inr () \<and> created (fst (setup_twice c c')) = []) \<and>
   created (fst (pushData c data index type)) =
     (if indices_exists c index = Inr False then [index] else []) \<and>
   (indices_exists c index = Inr i_exists \<longrightarrow> snd (pushData c data index type) = Inr ())"
proof -
  have only: "indices_exists c name = Inr False"
    if "name \<in> set (created (fst (setupElasticsearch c)))" for c name
    using that by (auto simp add: setupElasticsearch_created split: sum.splits if_splits)
  have twice: "created (fst (setup_twice c c')) =
      created (fst (setupElasticsearch c)) @
      (case snd (setupElasticsearch c) of Inl e \<Rightarrow> [] | Inr u \<Rightarrow> created (fst (setupElasticsearch c')))"
    by (cases "setupElasticsearch c"; cases "snd (setupElasticsearch c)")
       (simp_all add: setup_twice_def)
  have twice_result: "snd (setup_twice c c') =
      (case snd (setupElasticsearch c) of Inl e \<Rightarrow> Inl e | Inr u \<Rightarrow> snd (setupElasticsearch c'))"
    by (cases "setupElasticsearch c"; cases "snd (setupElasticsearch c)")
       (simp_all add: setup_twice_def)
  have 1: "\<forall>name. name \<in> set (created (fst (setupElasticsearch c))) \<longrightarrow>
      indices_exists c name = Inr False"
    using only by blast
  have 2: "indices_exists c ''oslo-terminology'' = Inr t_exists \<and>
    indices_exists c ''oslo-application-profiles'' = Inr a_exists \<longrightarrow>
      snd (setupElasticsearch c) = Inr () \<and>
      created (fst (setupElasticsearch c)) =
        (if t_exists then [] else [''oslo-terminology'']) @
        (if a_exists then [] else [''oslo-application-profiles''])"
    by (simp add: setupElasticsearch_created setupElasticsearch_result)
  have 3: "indices_exists c name = Inr True \<and> indices_exists c' name = Inr True \<longrightarrow>
      name \<notin> set (created (fst (setup_twice c c')))"
  proof (intro impI notI)
    assume h: "indices_exists c name = Inr True \<and> indices_exists c' name = Inr True"
      and m: "name \<in> set (created (fst (setup_twice c c')))"
    from m have "name \<in> set (created (fst (setupElasticsearch c))) \<or>
                 name \<in> set (created (fst (setupElasticsearch c')))"
      by (auto simp add: twice split: sum.splits)
    with only [of name c] only [of name c'] h show False by auto
  qed
  have 4: "indices_exists c ''oslo-terminology'' = Inr True \<and>
    indices_exists c ''oslo-application-profiles'' = Inr True \<and>
    indices_exists c' ''oslo-terminology'' = Inr True \<and>
    indices_exists c' ''oslo-application-profiles'' = Inr True \<longrightarrow>
      snd (setup_twice c c') = Inr () \<and> created (fst (setup_twice c c')) = []"
    by (simp add: twice twice_result setupElasticsearch_created setupElasticsearch_result)
  have 5: "created (fst (pushData c data index type)) =
     (if indices_exists c index = Inr False then [index] else [])"
    by (rule pushData_created)
  have 6: "indices_exists c index = Inr i_exists \<longrightarrow> snd (pushData c data index type) = Inr ()"
    by (simp add: pushData_def connectToElasticsearch_def checkIfIndexExists_def
        createIndex_def emit_def return_io_def)
  from 1 2 3 4 5 6 show ?thesis by (intro conjI)
qed

theorem ensure_collection_idempotent_witness:
  "indices_exists example_client ''oslo-terminology'' = Inr True \<and>
   indices_exists example_client ''oslo-application-profiles'' = Inr False \<and>
   snd (setupElasticsearch example_client) = Inr () \<and>
   created (fst (setupElasticsearch example_client)) = [''oslo-application-profiles''] \<and>
   indices_exists existing_client ''oslo-terminology'' = Inr True \<and>
   snd (setup_twice existing_client existing_client) = Inr () \<and>
   created (fst (setup_twice existing_client existing_client)) = [] \<and>
   created (fst (pushData existing_client [record_a] ''oslo-terminology'' ''vocabularies'')) = []"
proof -
  have e: "indices_exists example_client ''oslo-terminology'' = Inr True"
          "indices_exists example_client ''oslo-application-profiles'' = Inr False"
    by (simp_all add: example_client_def example_exists_def)
  have x: "indices_exists existing_client index = Inr True" for index
    by (simp add: existing_client_def all_exist_def)
  note once = ensure_collection_idempotent
    [of example_client True False, THEN conjunct2, THEN conjunct1]
  note rest = ensure_collection_idempotent
    [of existing_client True True "''oslo-terminology''" existing_client "[record_a]"
      "''oslo-terminology''" "''vocabularies''" True,
     THEN conjunct2, THEN conjunct2, THEN conjunct2]
  from e once
  have a: "snd (setupElasticsearch example_client) = Inr () \<and>
           created (fst (setupElasticsearch example_client)) = [''oslo-application-profiles'']"
    by simp
  from x rest [THEN conjunct1]
  have b: "snd (setup_twice existing_client existing_client) = Inr () \<and>
           created (fst (setup_twice existing_client existing_client)) = []"
    by simp
  from x rest [THEN conjunct2, THEN conjunct1]
  have p: "created (fst (pushData existing_client [record_a] ''oslo-terminology'' ''vocabularies'')) = []"
    by simp
  from e a b p x [of "''oslo-terminology''"] show ?thesis by simp
qed

text \<open>
  Claim C8, at the empty batch. \<open>updateVocabulary\<close> and \<open>updateApplicationProfile\<close> call
  \<^verbatim>\<open>client.bulk\<close> once, with the empty list as body; \<open>pushDataInBulk\<close>, which tests
  \<^verbatim>\<open>bulk.length\<close> first, calls nothing.
\<close>

theorem empty_batch_bulk_calls:
  "updateVocabulary c [] = ([Ping 30000, Bulk []], Inr ()) \<and>
   updateApplicationProfile c [] = ([Ping 30000, Bulk []], Inr ()) \<and>
   pushDataInBulk c type index [] = ([], Inr ())"
  by (simp add: updateVocabulary_def updateApplicationProfile_def pushDataInBulk_def
      connectToElasticsearch_def return_io_def emit_def)

text \<open>
  Claim C9, at the two outcomes of the ping. With an error the callback logs
  \<^verbatim>\<open>Elasticsearch cluster is down\<close> on the error stream and exits with status 1. Without
  one it does nothing: the line \<^verbatim>\<open>Elasticsearch cluster/client is running\<close> is in the
  \<^verbatim>\<open>else\<close> of the second, identical test of \<^verbatim>\<open>error\<close>, inside the branch where
  \<^verbatim>\<open>error\<close> holds.
\<close>

theorem pingCallback_outcomes:
  "pingCallback (Some e) = [Log_error ''Elasticsearch cluster is down'', Exit 1] \<and>
   pingCallback None = [] \<and>
   Log ''Elasticsearch cluster/client is running'' \<notin> set (pingCallback error)"
  by (simp add: pingCallback_def)

end
